theory Spec2Isabelle
  imports Main
begin

section \<open>Python values, exceptions and iterators\<close>

text \<open>
  The notebooks pass JSON-like values around. A dict is an association list in insertion
  order, looked up with \<open>map_of\<close>; \<open>PObj\<close> is an opaque object (a file handle, an SDK
  object) named by its class.
\<close>

datatype pyval =
    PNone
  | PBool bool
  | PInt int
  | PStr string
  | PList "pyval list"
  | PDict "(string \<times> pyval) list"
  | PObj string

type_synonym pydict = "(string \<times> pyval) list"

text \<open>
  Exceptions carry their class and the text \<open>str(e)\<close> gives. The classes that matter to
  the handlers of the notebooks are named; every other class deriving from
  \<open>Exception\<close> is \<open>OtherException\<close>. \<open>KeyboardInterrupt\<close>, \<open>SystemExit\<close>,
  \<open>GeneratorExit\<close> and \<open>asyncio.CancelledError\<close> derive from \<open>BaseException\<close> only.
\<close>

datatype exc_class =
    FileNotFoundError
  | UnicodeDecodeError
  | NameError
  | KeyError
  | IndexError
  | TypeError
  | OtherException string
  | KeyboardInterrupt
  | SystemExit
  | GeneratorExit
  | CancelledError

datatype pyexc = PyExc (exc_class: exc_class) (exc_str: string)

text \<open>\<open>isinstance(e, Exception)\<close>: what \<open>except Exception\<close> and \<open>suppress(Exception)\<close> test.\<close>

fun is_Exception :: "exc_class \<Rightarrow> bool" where
  "is_Exception KeyboardInterrupt = False"
| "is_Exception SystemExit = False"
| "is_Exception GeneratorExit = False"
| "is_Exception CancelledError = False"
| "is_Exception _ = True"

datatype 'a outcome = Returned 'a | Raised pyexc

text \<open>
  A finite run of an iterator: each step hands out an item, or ends the iteration
  (\<open>Stop\<close>), or raises.
\<close>

datatype 'a pystream = Stop | Raise pyexc | Next 'a "'a pystream"

fun items :: "'a pystream \<Rightarrow> 'a list" where
  "items Stop = []"
| "items (Raise e) = []"
| "items (Next x rest) = x # items rest"

fun ending :: "'a pystream \<Rightarrow> pyexc option" where
  "ending Stop = None"
| "ending (Raise e) = Some e"
| "ending (Next x rest) = ending rest"

text \<open>\<open>d.get(k)\<close>: the value, or \<open>None\<close> for a missing key.\<close>

definition dict_get :: "pydict \<Rightarrow> string \<Rightarrow> pyval" where
  "dict_get d k = (case map_of d k of None \<Rightarrow> PNone | Some v \<Rightarrow> v)"

section \<open>Strings\<close>

definition startswith :: "string \<Rightarrow> string \<Rightarrow> bool" where
  "startswith s p = (take (length p) s = p)"

text \<open>\<open>s.replace(old, new)\<close> for a one-character \<open>old\<close>.\<close>

definition replace_char :: "string \<Rightarrow> char \<Rightarrow> string \<Rightarrow> string" where
  "replace_char s old new = concat (map (\<lambda>c. if c = old then new else [c]) s)"

text \<open>\<open>sep.join(xs)\<close>.\<close>

fun join :: "string \<Rightarrow> string list \<Rightarrow> string" where
  "join sep [] = []"
| "join sep [x] = x"
| "join sep (x # y # ys) = x @ sep @ join sep (y # ys)"

text \<open>\<open>sub in s\<close> on strings: \<open>sub\<close> occurs in \<open>s\<close> at some offset.\<close>

definition contains :: "string \<Rightarrow> string \<Rightarrow> bool" where
  "contains s sub = list_ex (\<lambda>i. take (length sub) (drop i s) = sub) [0..<Suc (length s)]"

section \<open>The streaming notebook: reading the event stream with boto3\<close>

text \<open>
  The cell reads the lines of the response body. A line is kept when it is not empty and
  starts with \<open>data: \<close>; the chunk is the line from offset 6 on, without double quotes
  (the cell removes them once for \<open>data\<close> and once more when it appends). The lines are
  taken as already decoded: \<open>data: \<close> and the double quote are ASCII, so the tests and the
  slice agree on bytes and on decoded text. The cell's print of each chunk is left out.
\<close>

definition dquote :: char where
  "dquote = CHR 0x22"

fun iter_lines_loop :: "string list \<Rightarrow> string list \<Rightarrow> string list" where
  "iter_lines_loop [] content = content"
| "iter_lines_loop (line # rest) content =
     (if line \<noteq> [] then
        (if startswith line ''data: '' then
           (let data = replace_char (drop 6 line) dquote []
            in iter_lines_loop rest (content @ [replace_char data dquote []]))
         else iter_lines_loop rest content)
      else iter_lines_loop rest content)"

record sse_result =
  content :: "string list"
  full_response :: string

text \<open>
  The cell takes the streaming branch when the content type mentions
  \<open>text/event-stream\<close>; the other branch (a single JSON document) is \<open>None\<close> here.
\<close>

definition boto3_streaming_cell :: "string \<Rightarrow> string list \<Rightarrow> sse_result option" where
  "boto3_streaming_cell contentType lines =
     (if contains contentType ''text/event-stream'' then
        (let content = iter_lines_loop lines []
         in Some \<lparr>content = content, full_response = join '' '' content\<rparr>)
      else None)"

text \<open>The chunks as the specification words them.\<close>

definition sse_chunks :: "string list \<Rightarrow> string list" where
  "sse_chunks lines =
     map (\<lambda>line. filter (\<lambda>c. c \<noteq> dquote) (drop 6 line))
       (filter (\<lambda>line. line \<noteq> [] \<and> startswith line ''data: '') lines)"

section \<open>The streaming notebook: the entrypoint\<close>

text \<open>
  \<open>strands_agent_bedrock_streaming\<close> is an async generator. Its run is recorded as the
  values it yields, the lines it prints, the arguments it passes to
  \<open>agent.stream_async\<close>, and how it ends. \<open>User_input v\<close> stands for
  \<open>print("User input:", v)\<close> and \<open>Streaming_error v\<close> for
  \<open>print(f"Streaming error: {v}")\<close>. The agent is a parameter: for each prompt, the run of
  the iterator it returns (a \<open>Raise\<close> at the head is a call that raises at once).
  The run is that of a consumer that reads the generator to its end.
\<close>

datatype out_line = User_input pyval | Streaming_error pyval

record gen_run =
  yielded :: "pyval list"
  printed :: "out_line list"
  agent_calls :: "pyval list"
  finish :: "unit outcome"

text \<open>The \<open>async for\<close> loop: the values yielded so far, and the exception that left it.\<close>

fun stream_loop :: "pydict pystream \<Rightarrow> pyval list \<Rightarrow> pyval list \<times> pyexc option" where
  "stream_loop Stop ys = (ys, None)"
| "stream_loop (Raise e) ys = (ys, Some e)"
| "stream_loop (Next event rest) ys =
     (case map_of event ''data'' of
        Some d \<Rightarrow> stream_loop rest (ys @ [d])
      | None \<Rightarrow> stream_loop rest ys)"

definition strands_agent_bedrock_streaming ::
    "(pyval \<Rightarrow> pydict pystream) \<Rightarrow> pydict \<Rightarrow> gen_run" where
  "strands_agent_bedrock_streaming stream_async payload =
     (let user_input = dict_get payload ''prompt'';
          run = stream_loop (stream_async user_input) []
      in case snd run of
           None \<Rightarrow>
             \<lparr>yielded = fst run, printed = [User_input user_input],
              agent_calls = [user_input], finish = Returned ()\<rparr>
         | Some e \<Rightarrow>
             if is_Exception (exc_class e) then
               (let error_response =
                      PDict [(''error'', PStr (exc_str e)), (''type'', PStr ''stream_error'')]
                in \<lparr>yielded = fst run @ [error_response],
                    printed = [User_input user_input, Streaming_error error_response],
                    agent_calls = [user_input], finish = Returned ()\<rparr>)
             else
               \<lparr>yielded = fst run, printed = [User_input user_input],
                agent_calls = [user_input], finish = Raised e\<rparr>)"

text \<open>The \<open>data\<close> values of the events that have the key, as the specification words them.\<close>

definition data_values :: "pydict list \<Rightarrow> pyval list" where
  "data_values evs =
     map (\<lambda>event. dict_get event ''data'') (filter (\<lambda>event. map_of event ''data'' \<noteq> None) evs)"

section \<open>The streaming notebook: waiting for the deployment\<close>

text \<open>
  The cell asks for the status once, then asks again (after a sleep) as long as the status
  is not one of \<open>end_status\<close>, printing each status it gets inside the loop.
  \<open>runtime_status k\<close> is what the call number \<open>k\<close> of \<open>agentcore_runtime.status()\<close>
  answers, counting from 0. The loop has no bound, so a run that never returns is \<open>None\<close>.
  The sleep between two calls is left out.
\<close>

definition end_status :: "string list" where
  "end_status = [''READY'', ''CREATE_FAILED'', ''DELETE_FAILED'', ''UPDATE_FAILED'']"

record poll_result =
  final_status :: string
  printed_statuses :: "string list"
  status_calls :: nat

partial_function (option) polling_loop ::
    "(nat \<Rightarrow> string) \<Rightarrow> nat \<Rightarrow> string \<Rightarrow> string list \<Rightarrow> poll_result option" where
  "polling_loop runtime_status n status out =
     (if status \<notin> set end_status then
        polling_loop runtime_status (Suc n) (runtime_status n) (out @ [runtime_status n])
      else Some \<lparr>final_status = status, printed_statuses = out, status_calls = n\<rparr>)"

definition status_polling_cell :: "(nat \<Rightarrow> string) \<Rightarrow> poll_result option" where
  "status_polling_cell runtime_status = polling_loop runtime_status 1 (runtime_status 0) []"

section \<open>The browser notebook\<close>

text \<open>
  The calls into the browser-use, LangChain and rich libraries are the environment: each
  either returns or raises. \<open>console_print\<close> is the outcome of \<open>console.print\<close> on a
  text that interpolates a string known only at run time (the task, \<open>str(e)\<close>): rich
  reads the whole text as markup and raises on a closing tag that matches no open tag.
  The prints of the notebook's constant messages, whose markup is well formed, return.

  A run is recorded as the list of what was called, in order, whether the call returned
  or raised. \<open>Console_executing\<close>, \<open>Console_completed\<close>, \<open>Console_error\<close>,
  \<open>Console_initializing\<close>, \<open>Console_ready\<close>, \<open>Console_closing\<close> and
  \<open>Console_closed\<close> stand for the \<open>console.print\<close> calls of the notebook.
\<close>

record browser_env =
  profile_init :: "pyexc option"
  session_init :: "pyexc option"
  session_start :: "pyexc option"
  chat_init :: "pyexc option"
  agent_init :: "pyexc option"
  agent_run :: "pyexc option"
  session_close :: "pyexc option"
  is_terminal :: bool
  console_print :: "string \<Rightarrow> pyexc option"

text \<open>
  The two texts that interpolate a run-time string. The emoji of the source are written
  as their UTF-8 bytes.
\<close>

definition robot_face :: string where
  "robot_face = [CHR 0xF0, CHR 0x9F, CHR 0xA4, CHR 0x96]"

definition cross_mark :: string where
  "cross_mark = [CHR 0xE2, CHR 0x9D, CHR 0x8C]"

definition executing_text :: "string \<Rightarrow> string" where
  "executing_text task =
     ''\<newline>[bold blue]'' @ robot_face @ '' Executing task:[/bold blue] '' @ task"

definition error_text :: "string \<Rightarrow> string" where
  "error_text s = ''[bold red]'' @ cross_mark @ '' Error during task execution:[/bold red] '' @ s"

datatype action =
    Console_executing string
  | Agent_init
  | Agent_run
  | Console_completed
  | Console_error string
  | Traceback_print_exc
  | Profile_init
  | Session_init
  | Console_initializing
  | Session_start
  | Chat_init
  | Console_ready
  | Console_closing
  | Session_close
  | Console_closed

text \<open>
  The \<open>except Exception as e\<close> clause of \<open>run_browser_task\<close>. An exception of the
  \<open>console.print\<close> in the clause leaves the function.
\<close>

definition task_except :: "browser_env \<Rightarrow> action list \<Rightarrow> pyexc \<Rightarrow> action list \<times> pyval outcome" where
  "task_except env log e =
     (if is_Exception (exc_class e) then
        (case console_print env (error_text (exc_str e)) of
           Some e' \<Rightarrow> (log @ [Console_error (exc_str e)], Raised e')
         | None \<Rightarrow>
             (log @ [Console_error (exc_str e)] @
                (if is_terminal env then [Traceback_print_exc] else []),
              Returned PNone))
      else (log, Raised e))"

definition run_browser_task :: "browser_env \<Rightarrow> string \<Rightarrow> action list \<times> pyval outcome" where
  "run_browser_task env task =
     (case console_print env (executing_text task) of
        Some e \<Rightarrow> task_except env [Console_executing task] e
      | None \<Rightarrow>
     (case agent_init env of
        Some e \<Rightarrow> task_except env [Console_executing task, Agent_init] e
      | None \<Rightarrow>
     (case agent_run env of
        Some e \<Rightarrow> task_except env [Console_executing task, Agent_init, Agent_run] e
      | None \<Rightarrow>
          ([Console_executing task, Agent_init, Agent_run, Console_completed],
           Returned PNone))))"

text \<open>
  The exception, if any, that constructing or running the Agent raises once the function
  has reached the constructor.
\<close>

definition agent_raises :: "browser_env \<Rightarrow> pyexc option" where
  "agent_raises env = (case agent_init env of Some e \<Rightarrow> Some e | None \<Rightarrow> agent_run env)"

text \<open>
  \<open>if x:\<close> on a value. An object of a class that defines neither \<open>__bool__\<close> nor
  \<open>__len__\<close>, as a browser session is, counts as true.
\<close>

fun truthy :: "pyval \<Rightarrow> bool" where
  "truthy PNone = False"
| "truthy (PBool b) = b"
| "truthy (PInt i) = (i \<noteq> 0)"
| "truthy (PStr s) = (s \<noteq> [])"
| "truthy (PList xs) = (xs \<noteq> [])"
| "truthy (PDict d) = (d \<noteq> [])"
| "truthy (PObj c) = True"

text \<open>
  The session cell. \<open>try_state\<close> is what the \<open>try\<close> block leaves: the actions so far,
  the variable \<open>browser_session\<close>, and the exception that left the block, if one did.
\<close>

record try_state =
  actions :: "action list"
  browser_session :: pyval
  raised :: "pyexc option"

definition session_task :: string where
  "session_task = ''Search for a coffee maker on amazon.com and extract details of the first one''"

definition session_try :: "browser_env \<Rightarrow> try_state" where
  "session_try env =
     (case profile_init env of
        Some e \<Rightarrow> \<lparr>actions = [Profile_init], browser_session = PNone, raised = Some e\<rparr>
      | None \<Rightarrow>
     (case session_init env of
        Some e \<Rightarrow>
          \<lparr>actions = [Profile_init, Session_init], browser_session = PNone, raised = Some e\<rparr>
      | None \<Rightarrow>
     (case session_start env of
        Some e \<Rightarrow>
          \<lparr>actions = [Profile_init, Session_init, Console_initializing, Session_start],
           browser_session = PObj ''BrowserSession'', raised = Some e\<rparr>
      | None \<Rightarrow>
     (case chat_init env of
        Some e \<Rightarrow>
          \<lparr>actions = [Profile_init, Session_init, Console_initializing, Session_start,
                      Chat_init],
           browser_session = PObj ''BrowserSession'', raised = Some e\<rparr>
      | None \<Rightarrow>
          \<lparr>actions = [Profile_init, Session_init, Console_initializing, Session_start,
                      Chat_init, Console_ready] @ fst (run_browser_task env session_task),
           browser_session = PObj ''BrowserSession'',
           raised = (case snd (run_browser_task env session_task) of
                       Returned v \<Rightarrow> None
                     | Raised e \<Rightarrow> Some e)\<rparr>))))"

text \<open>
  The \<open>finally\<close> block. An exception that \<open>suppress(Exception)\<close> lets through leaves
  the block at once and replaces the one of the \<open>try\<close> block.
\<close>

definition session_finally :: "browser_env \<Rightarrow> try_state \<Rightarrow> action list \<times> pyexc option" where
  "session_finally env s =
     (if truthy (browser_session s) then
        (case session_close env of
           None \<Rightarrow> (actions s @ [Console_closing, Session_close, Console_closed], raised s)
         | Some e \<Rightarrow>
             if is_Exception (exc_class e)
             then (actions s @ [Console_closing, Session_close, Console_closed], raised s)
             else (actions s @ [Console_closing, Session_close], Some e))
      else (actions s, raised s))"

text \<open>The cell: its actions, and the exception it propagates, if any.\<close>

definition browser_session_cell :: "browser_env \<Rightarrow> action list \<times> pyexc option" where
  "browser_session_cell env = session_finally env (session_try env)"

text \<open>An environment in which every call returns, for the examples.\<close>

definition calm_browser :: browser_env where
  "calm_browser =
     \<lparr>profile_init = None, session_init = None, session_start = None, chat_init = None,
      agent_init = None, agent_run = None, session_close = None, is_terminal = False,
      console_print = (\<lambda>text. None)\<rparr>"

text \<open>
  A \<open>console.print\<close> that raises on a text with the closing tag \<open>[/div]\<close>, which no
  message of the notebook opens.
\<close>

definition markup_error :: pyexc where
  "markup_error =
     PyExc (OtherException ''MarkupError'')
       (''closing tag '' @ [CHR 0x27] @ ''[/div]'' @ [CHR 0x27] @
        '' at position 60 doesn'' @ [CHR 0x27] @ ''t match any open tag'')"

definition rich_print :: "string \<Rightarrow> pyexc option" where
  "rich_print text = (if contains text ''[/div]'' then Some markup_error else None)"

section \<open>The code interpreter notebook\<close>

text \<open>
  The remote service and the libraries are the environment. Each remote call either
  returns or raises; \<open>invoke_code_interpreter\<close> answers by the number of remote calls made
  before it (the service may answer each call differently), the tool name and the
  arguments. \<open>json_dumps v\<close> is \<open>json.dumps(v, indent=2)\<close>; \<open>stdout_of s\<close> is
  \<open>json.loads(s)['structuredContent']['stdout']\<close>; \<open>open_local_file\<close> is the outcome
  of \<open>open(local_file)\<close> and, when the file opens, of \<open>read()\<close>. The configuration
  cell's variables (\<open>s3_path\<close>, \<open>region\<close>, \<open>local_file\<close>) are taken as bound.
\<close>

record env =
  create_code_interpreter :: "pyexc + string"
  start_code_interpreter_session :: "pyexc + string"
  invoke_code_interpreter :: "nat \<Rightarrow> string \<Rightarrow> pyval \<Rightarrow> pyexc + pydict pystream"
  stop_code_interpreter_session :: "pyexc option"
  delete_code_interpreter :: "pyexc option"
  json_dumps :: "pyval \<Rightarrow> pyexc + string"
  stdout_of :: "string \<Rightarrow> pyexc + string"
  open_local_file :: "pyexc + (pyexc + string)"
  s3_path :: string

definition region :: string where
  "region = ''us-west-2''"

definition local_file :: string where
  "local_file = ''samples/stats.py''"

datatype remote_op =
    CreateCodeInterpreter
  | StartCodeInterpreterSession
  | InvokeCodeInterpreter string
  | StopCodeInterpreterSession
  | DeleteCodeInterpreter

text \<open>
  The kernel's namespace, as far as the cells below bind it, with the remote calls made
  so far and the lines printed. A variable that no cell has bound yet is \<open>None\<close>.
  \<open>files_to_create\<close> is a list of dicts with the keys \<open>path\<close> and \<open>text\<close>, kept as
  pairs.
\<close>

record kernel =
  interpreter_id :: "string option"
  session_id :: "string option"
  local_file_content :: "pyval option"
  files_to_create :: "(string \<times> pyval) list option"
  remote_calls :: "remote_op list"
  stdout :: "string list"

definition fresh_kernel :: kernel where
  "fresh_kernel =
     \<lparr>interpreter_id = None, session_id = None, local_file_content = None,
      files_to_create = None, remote_calls = [], stdout = []\<rparr>"

definition squote :: char where
  "squote = CHR 0x27"

definition name_error :: "string \<Rightarrow> pyexc" where
  "name_error v = PyExc NameError (''name '' @ [squote] @ v @ [squote] @ '' is not defined'')"

definition key_error :: "string \<Rightarrow> pyexc" where
  "key_error k = PyExc KeyError ([squote] @ k @ [squote])"

definition print_line :: "string \<Rightarrow> kernel \<Rightarrow> kernel" where
  "print_line s k = k\<lparr>stdout := stdout k @ [s]\<rparr>"

definition remote :: "remote_op \<Rightarrow> kernel \<Rightarrow> kernel" where
  "remote c k = k\<lparr>remote_calls := remote_calls k @ [c]\<rparr>"

text \<open>\<open>str(x)\<close> for what \<open>call_tool\<close> returns: a string, or \<open>None\<close>.\<close>

definition str_opt :: "string option \<Rightarrow> string" where
  "str_opt r = (case r of None \<Rightarrow> ''None'' | Some s \<Rightarrow> s)"

text \<open>
  The \<open>for\<close> loop of \<open>call_tool\<close>: its body returns at the first event, so the loop reads
  at most one event. The result is what \<open>call_tool\<close> returns or raises, and the part of
  the stream left unread.
\<close>

definition first_event ::
    "(pyval \<Rightarrow> pyexc + string) \<Rightarrow> pydict pystream \<Rightarrow> string option outcome \<times> pydict pystream" where
  "first_event dumps stream =
     (case stream of
        Stop \<Rightarrow> (Returned None, Stop)
      | Raise e \<Rightarrow> (Raised e, Stop)
      | Next event rest \<Rightarrow>
          (case map_of event ''result'' of
             None \<Rightarrow> (Raised (key_error ''result''), rest)
           | Some r \<Rightarrow>
               (case dumps r of
                  Inl e \<Rightarrow> (Raised e, rest)
                | Inr s \<Rightarrow> (Returned (Some s), rest))))"

record tool_run =
  kernel_after :: kernel
  returned :: "string option outcome"
  unread :: "pydict pystream option"

definition call_tool :: "env \<Rightarrow> kernel \<Rightarrow> string \<Rightarrow> pyval \<Rightarrow> tool_run" where
  "call_tool env k tool_name arguments =
     (case interpreter_id k of
        None \<Rightarrow>
          \<lparr>kernel_after = k, returned = Raised (name_error ''interpreter_id''), unread = None\<rparr>
      | Some iid \<Rightarrow>
     (case session_id k of
        None \<Rightarrow>
          \<lparr>kernel_after = k, returned = Raised (name_error ''session_id''), unread = None\<rparr>
      | Some sid \<Rightarrow>
     (case invoke_code_interpreter env (length (remote_calls k)) tool_name arguments of
        Inl e \<Rightarrow>
          \<lparr>kernel_after = remote (InvokeCodeInterpreter tool_name) k, returned = Raised e,
           unread = None\<rparr>
      | Inr stream \<Rightarrow>
          \<lparr>kernel_after = remote (InvokeCodeInterpreter tool_name) k,
           returned = fst (first_event (json_dumps env) stream),
           unread = Some (snd (first_event (json_dumps env) stream))\<rparr>)))"

text \<open>
  A cell takes the kernel to the kernel it leaves, with the exception that ended the
  cell, if one did.
\<close>

type_synonym cell = "env \<Rightarrow> kernel \<Rightarrow> kernel \<times> pyexc option"

definition create_cell :: cell where
  "create_cell env k =
     (case create_code_interpreter env of
        Inl e \<Rightarrow> (remote CreateCodeInterpreter k, Some e)
      | Inr iid \<Rightarrow>
          (print_line (''Created interpreter: '' @ iid)
             ((remote CreateCodeInterpreter k)\<lparr>interpreter_id := Some iid\<rparr>), None))"

definition start_cell :: cell where
  "start_cell env k =
     (case interpreter_id k of
        None \<Rightarrow> (k, Some (name_error ''interpreter_id''))
      | Some iid \<Rightarrow>
          (case start_code_interpreter_session env of
             Inl e \<Rightarrow> (remote StartCodeInterpreterSession k, Some e)
           | Inr sid \<Rightarrow>
               (print_line (''Created session: '' @ sid)
                  ((remote StartCodeInterpreterSession k)\<lparr>session_id := Some sid\<rparr>), None)))"

text \<open>
  The end of the two test cells: \<open>json.loads(command_response)\<close> raises a
  \<open>TypeError\<close> on \<open>None\<close>; the printed line is the \<open>stdout\<close> field.
\<close>

definition print_stdout :: "env \<Rightarrow> string option \<Rightarrow> kernel \<Rightarrow> kernel \<times> pyexc option" where
  "print_stdout env command_response k =
     (case command_response of
        None \<Rightarrow>
          (k, Some (PyExc TypeError
             ''the JSON object must be str, bytes or bytearray, not NoneType''))
      | Some s \<Rightarrow>
          (case stdout_of env s of
             Inl e \<Rightarrow> (k, Some e)
           | Inr out \<Rightarrow> (print_line out k, None)))"

definition hello_cell :: cell where
  "hello_cell env k =
     (let run = call_tool env (print_line ''executing shell command \<newline>'' k) ''executeCommand''
                  (PDict [(''command'', PStr (''echo '' @ [squote] @ ''Hello World'' @ [squote]))])
      in case returned run of
           Raised e \<Rightarrow> (kernel_after run, Some e)
         | Returned command_response \<Rightarrow>
             print_stdout env command_response
               (print_line (''command result: '' @ str_opt command_response) (kernel_after run)))"

definition pip_cell :: cell where
  "pip_cell env k =
     (let run = call_tool env (print_line ''executing shell command \<newline>'' k) ''executeCommand''
                  (PDict [(''command'', PStr ''pip install boto3'')])
      in case returned run of
           Raised e \<Rightarrow> (kernel_after run, Some e)
         | Returned command_response \<Rightarrow>
             print_stdout env command_response (kernel_after run))"

text \<open>
  The \<open>try\<close> statement of the write cell. \<open>open\<close> binds \<open>local_file_content\<close> to the
  file object, \<open>read\<close> rebinds it to the text. The first handler takes
  \<open>FileNotFoundError\<close>, the second every other instance of \<open>Exception\<close>; anything else
  leaves the cell.
\<close>

definition read_except :: "pyexc \<Rightarrow> kernel \<Rightarrow> kernel \<times> pyexc option" where
  "read_except e k =
     (if exc_class e = FileNotFoundError then
        (print_line (''Error: The file '' @ [squote] @ local_file @ [squote] @ '' was not found.'') k,
         None)
      else if is_Exception (exc_class e) then
        (print_line (''An error occurred: '' @ exc_str e) k, None)
      else (k, Some e))"

definition read_local_file :: "env \<Rightarrow> kernel \<Rightarrow> kernel \<times> pyexc option" where
  "read_local_file env k =
     (case open_local_file env of
        Inl e \<Rightarrow> read_except e k
      | Inr (Inl e) \<Rightarrow> read_except e (k\<lparr>local_file_content := Some (PObj ''TextIOWrapper'')\<rparr>)
      | Inr (Inr text) \<Rightarrow> (k\<lparr>local_file_content := Some (PStr text)\<rparr>, None))"

text \<open>The list of dicts, as the value passed to the service.\<close>

definition files_value :: "(string \<times> pyval) list \<Rightarrow> pyval" where
  "files_value files =
     PList (map (\<lambda>(path, text). PDict [(''path'', PStr path), (''text'', text)]) files)"

definition write_file_cell :: cell where
  "write_file_cell env k =
     (case read_local_file env (print_line ''Writing file to sandbox'' k) of
        (k1, Some e) \<Rightarrow> (k1, Some e)
      | (k1, None) \<Rightarrow>
     (case local_file_content k1 of
        None \<Rightarrow> (k1, Some (name_error ''local_file_content''))
      | Some text \<Rightarrow>
          (let files = [(''stats.py'', text)];
               k2 = k1\<lparr>files_to_create := Some files\<rparr>;
               run = call_tool env k2 ''writeFiles'' (PDict [(''content'', files_value files)])
           in case returned run of
                Raised e \<Rightarrow> (kernel_after run, Some e)
              | Returned write_files_response \<Rightarrow>
                  (print_line (''write files result: '' @ str_opt write_files_response)
                     (kernel_after run), None))))"

definition make_bucket_cell :: cell where
  "make_bucket_cell env k =
     (let run = call_tool env (print_line ''\<newline>Creating S3 bucket'' k) ''executeCommand''
                  (PDict [(''command'',
                     PStr (''aws s3 mb '' @ s3_path env @ '' --region '' @ region))])
      in case returned run of
           Raised e \<Rightarrow> (kernel_after run, Some e)
         | Returned create_s3_response \<Rightarrow>
             (print_line (''create result: '' @ str_opt create_s3_response) (kernel_after run),
              None))"

text \<open>
  \<open>files_to_create[0]['path']\<close>: the variable is unbound when the write cell did not
  reach its assignment.
\<close>

definition first_path :: "(string \<times> pyval) list \<Rightarrow> pyexc + string" where
  "first_path files =
     (case files of
        [] \<Rightarrow> Inl (PyExc IndexError ''list index out of range'')
      | (path, text) # rest \<Rightarrow> Inr path)"

definition upload_cell :: cell where
  "upload_cell env k =
     (let k1 = print_line ''\<newline>Uploading file to S3'' k
      in case files_to_create k1 of
           None \<Rightarrow> (k1, Some (name_error ''files_to_create''))
         | Some files \<Rightarrow>
        (case first_path files of
           Inl e \<Rightarrow> (k1, Some e)
         | Inr path \<Rightarrow>
             (let run = call_tool env k1 ''executeCommand''
                          (PDict [(''command'',
                             PStr (''aws s3 cp '' @ path @ '' '' @ s3_path env))])
              in case returned run of
                   Raised e \<Rightarrow> (kernel_after run, Some e)
                 | Returned upload_to_s3_response \<Rightarrow>
                     (print_line (''upload result: '' @ str_opt upload_to_s3_response)
                        (kernel_after run), None))))"

definition list_cell :: cell where
  "list_cell env k =
     (let run = call_tool env (print_line ''\<newline>Listing files in S3'' k) ''executeCommand''
                  (PDict [(''command'', PStr (''aws s3 ls '' @ s3_path env))])
      in case returned run of
           Raised e \<Rightarrow> (kernel_after run, Some e)
         | Returned list_s3_response \<Rightarrow>
             (print_line (''list result: '' @ str_opt list_s3_response) (kernel_after run),
              None))"

definition cleanup_cell :: cell where
  "cleanup_cell env k =
     (let k1 = print_line ''Cleaning up session and interpreter'' k
      in case interpreter_id k1 of
           None \<Rightarrow> (k1, Some (name_error ''interpreter_id''))
         | Some iid \<Rightarrow>
        (case session_id k1 of
           None \<Rightarrow> (k1, Some (name_error ''session_id''))
         | Some sid \<Rightarrow>
        (case stop_code_interpreter_session env of
           Some e \<Rightarrow> (remote StopCodeInterpreterSession k1, Some e)
         | None \<Rightarrow>
             (let k2 = print_line ''Session stopped successfully''
                         (remote StopCodeInterpreterSession k1)
              in case delete_code_interpreter env of
                   Some e \<Rightarrow> (remote DeleteCodeInterpreter k2, Some e)
                 | None \<Rightarrow>
                     (print_line ''Interpreter deleted successfully''
                        (remote DeleteCodeInterpreter k2), None)))))"

text \<open>
  The notebook's code cells that reach the service, top to bottom. After a cell that
  raised, either the run halts there (\<open>halt\<close>, as Run All does) or the next cell is run
  all the same (as a reader going on by hand does).
\<close>

definition notebook :: "cell list" where
  "notebook =
     [create_cell, start_cell, hello_cell, pip_cell, write_file_cell, make_bucket_cell,
      upload_cell, list_cell, cleanup_cell]"

fun run_cells :: "bool \<Rightarrow> env \<Rightarrow> cell list \<Rightarrow> kernel \<Rightarrow> kernel" where
  "run_cells halt env [] k = k"
| "run_cells halt env (c # cs) k =
     (case c env k of
        (k1, None) \<Rightarrow> run_cells halt env cs k1
      | (k1, Some e) \<Rightarrow> if halt then k1 else run_cells halt env cs k1)"

text \<open>
  The order of the pipeline, on a list of remote calls. \<open>precedes P Q t\<close>: no call with
  \<open>Q\<close> comes in \<open>t\<close> unless a call with \<open>P\<close> came before it. \<open>none_after P Q t\<close>: once a
  call with \<open>P\<close> has come, no call with \<open>Q\<close> follows.
\<close>

fun precedes :: "('a \<Rightarrow> bool) \<Rightarrow> ('a \<Rightarrow> bool) \<Rightarrow> 'a list \<Rightarrow> bool" where
  "precedes P Q [] = True"
| "precedes P Q (x # xs) = (if Q x then False else if P x then True else precedes P Q xs)"

fun none_after :: "('a \<Rightarrow> bool) \<Rightarrow> ('a \<Rightarrow> bool) \<Rightarrow> 'a list \<Rightarrow> bool" where
  "none_after P Q [] = True"
| "none_after P Q (x # xs) = (if P x then list_all (\<lambda>y. \<not> Q y) xs else none_after P Q xs)"

fun is_invoke :: "remote_op \<Rightarrow> bool" where
  "is_invoke (InvokeCodeInterpreter tool_name) = True"
| "is_invoke _ = False"

definition pipeline_order :: "remote_op list \<Rightarrow> bool" where
  "pipeline_order t =
     (precedes (\<lambda>c. c = CreateCodeInterpreter) (\<lambda>c. c = StartCodeInterpreterSession) t \<and>
      precedes (\<lambda>c. c = StartCodeInterpreterSession) is_invoke t \<and>
      precedes (\<lambda>c. c = StopCodeInterpreterSession) (\<lambda>c. c = DeleteCodeInterpreter) t \<and>
      none_after (\<lambda>c. c = StopCodeInterpreterSession)
        (\<lambda>c. is_invoke c \<or> c = StartCodeInterpreterSession \<or> c = StopCodeInterpreterSession) t \<and>
      none_after (\<lambda>c. c = DeleteCodeInterpreter) (\<lambda>c. True) t)"

text \<open>
  What holds of the kernel before the cleanup cell has run: a bound identifier was
  returned by the call that makes it, nothing has been released yet, and the calls made
  so far are in pipeline order.
\<close>

definition before_cleanup :: "kernel \<Rightarrow> bool" where
  "before_cleanup k =
     ((interpreter_id k \<noteq> None \<longrightarrow> CreateCodeInterpreter \<in> set (remote_calls k)) \<and>
      (session_id k \<noteq> None \<longrightarrow> StartCodeInterpreterSession \<in> set (remote_calls k)) \<and>
      StopCodeInterpreterSession \<notin> set (remote_calls k) \<and>
      DeleteCodeInterpreter \<notin> set (remote_calls k) \<and>
      pipeline_order (remote_calls k))"

text \<open>An environment in which every call succeeds, for the examples.\<close>

definition sample_env :: env where
  "sample_env =
     \<lparr>create_code_interpreter = Inr ''ci-1'',
      start_code_interpreter_session = Inr ''s-1'',
      invoke_code_interpreter = (\<lambda>n tool_name arguments.
        Inr (Next [(''result'', PDict [(''isError'', PBool False)])]
               (Next [(''result'', PDict [(''isError'', PBool True)])] Stop))),
      stop_code_interpreter_session = None,
      delete_code_interpreter = None,
      json_dumps = (\<lambda>v. if v = PDict [(''isError'', PBool False)] then Inr ''{ok}''
                          else Inr ''{error}''),
      stdout_of = (\<lambda>s. Inr s),
      open_local_file = Inr (Inr ''print(1)''),
      s3_path = ''s3://amzn-bucket-1''\<rparr>"

section \<open>Properties\<close>

subsection \<open>Reading the event stream\<close>

lemma replace_char_delete: "replace_char s c [] = filter (\<lambda>x. x \<noteq> c) s"
  by (induction s) (simp_all add: replace_char_def)

lemma iter_lines_loop_chunks: "iter_lines_loop lines acc = acc @ sse_chunks lines"
  by (induction lines arbitrary: acc) (simp_all add: sse_chunks_def replace_char_delete)

text \<open>
  C3: in the streaming branch, \<open>content\<close> holds exactly the non-empty lines that start
  with \<open>data: \<close>, each without its first six characters and without any double quote, in
  arrival order, and \<open>full_response\<close> is these chunks joined with single spaces.
\<close>

theorem boto3_streaming_cell_content:
  assumes "contains contentType ''text/event-stream''"
  shows "boto3_streaming_cell contentType lines =
           Some \<lparr>content = sse_chunks lines, full_response = join '' '' (sse_chunks lines)\<rparr>"
  using assms by (simp add: boto3_streaming_cell_def iter_lines_loop_chunks Let_def)

theorem boto3_streaming_cell_content_witness:
  "contains ''text/event-stream'' ''text/event-stream'' \<and>
   boto3_streaming_cell ''text/event-stream''
       ['''', ''data: '' @ [dquote] @ ''3'' @ [dquote], ''event: x'', ''data: is the sum''] =
     Some \<lparr>content = [''3'', ''is the sum''], full_response = ''3 is the sum''\<rparr>"
proof -
  have h: "contains ''text/event-stream'' ''text/event-stream''"
    by (simp add: contains_def)
  show ?thesis
    using h boto3_streaming_cell_content [OF h,
        of "['''', ''data: '' @ [dquote] @ ''3'' @ [dquote], ''event: x'', ''data: is the sum'']"]
    by (simp add: sse_chunks_def startswith_def dquote_def)
qed

subsection \<open>The streaming entrypoint\<close>

lemma stream_loop_eq: "stream_loop s ys = (ys @ data_values (items s), ending s)"
  by (induction s arbitrary: ys)
     (simp_all add: data_values_def dict_get_def split: option.splits)

text \<open>
  C1, as the code has it: when iterating the agent's stream raises an exception that is an
  instance of \<open>Exception\<close>, the generator yields the chunks it had yielded so far, then
  the one dict \<open>{"error": str(e), "type": "stream_error"}\<close>, which it also prints, and
  returns. An exception that derives from \<open>BaseException\<close> only is not caught: the
  chunks yielded so far stay as they are, no error chunk is yielded or printed, and the
  generator ends by raising that exception.
\<close>

theorem stream_error_chunk:
  assumes "ending (stream_async (dict_get payload ''prompt'')) = Some e"
  shows "(is_Exception (exc_class e) \<longrightarrow>
            yielded (strands_agent_bedrock_streaming stream_async payload) =
              data_values (items (stream_async (dict_get payload ''prompt''))) @
                [PDict [(''error'', PStr (exc_str e)), (''type'', PStr ''stream_error'')]] \<and>
            printed (strands_agent_bedrock_streaming stream_async payload) =
              [User_input (dict_get payload ''prompt''),
               Streaming_error
                 (PDict [(''error'', PStr (exc_str e)), (''type'', PStr ''stream_error'')])] \<and>
            finish (strands_agent_bedrock_streaming stream_async payload) = Returned ()) \<and>
         (\<not> is_Exception (exc_class e) \<longrightarrow>
            yielded (strands_agent_bedrock_streaming stream_async payload) =
              data_values (items (stream_async (dict_get payload ''prompt''))) \<and>
            printed (strands_agent_bedrock_streaming stream_async payload) =
              [User_input (dict_get payload ''prompt'')] \<and>
            finish (strands_agent_bedrock_streaming stream_async payload) = Raised e)"
  using assms by (simp add: strands_agent_bedrock_streaming_def stream_loop_eq Let_def)

theorem stream_error_chunk_witness:
  "yielded (strands_agent_bedrock_streaming
       (\<lambda>p. Next [(''data'', PStr ''4'')] (Raise (PyExc (OtherException ''ModelError'') ''throttled'')))
       [(''prompt'', PStr ''2+2'')]) =
     [PStr ''4'', PDict [(''error'', PStr ''throttled''), (''type'', PStr ''stream_error'')]] \<and>
   finish (strands_agent_bedrock_streaming
       (\<lambda>p. Next [(''data'', PStr ''4'')] (Raise (PyExc (OtherException ''ModelError'') ''throttled'')))
       [(''prompt'', PStr ''2+2'')]) = Returned ()"
  using stream_error_chunk [of
      "\<lambda>p. Next [(''data'', PStr ''4'')] (Raise (PyExc (OtherException ''ModelError'') ''throttled''))"
      "[(''prompt'', PStr ''2+2'')]" "PyExc (OtherException ''ModelError'') ''throttled''"]
  by (simp add: data_values_def dict_get_def)

text \<open>
  The claim as stated, for any exception, fails: \<open>asyncio.CancelledError\<close> does not derive
  from \<open>Exception\<close>, so \<open>except Exception\<close> lets it through; no error chunk is yielded
  and the generator ends by raising.
\<close>

theorem stream_error_chunk_counterexample:
  "strands_agent_bedrock_streaming
       (\<lambda>p. Next [(''data'', PStr ''4'')] (Raise (PyExc CancelledError [])))
       [(''prompt'', PStr ''2+2'')] =
     \<lparr>yielded = [PStr ''4''], printed = [User_input (PStr ''2+2'')],
      agent_calls = [PStr ''2+2''], finish = Raised (PyExc CancelledError [])\<rparr>"
  by (simp add: strands_agent_bedrock_streaming_def dict_get_def Let_def)

text \<open>
  C2: when the agent's stream ends without an exception, the generator yields exactly the
  \<open>data\<close> values of the events that have the key \<open>data\<close>, in order, and returns.
\<close>

theorem stream_yields_data:
  assumes "ending (stream_async (dict_get payload ''prompt'')) = None"
  shows "yielded (strands_agent_bedrock_streaming stream_async payload) =
           data_values (items (stream_async (dict_get payload ''prompt''))) \<and>
         finish (strands_agent_bedrock_streaming stream_async payload) = Returned ()"
  using assms by (simp add: strands_agent_bedrock_streaming_def stream_loop_eq Let_def)

theorem stream_yields_data_witness:
  "yielded (strands_agent_bedrock_streaming
       (\<lambda>p. Next [(''data'', PStr ''It is '')]
              (Next [(''event'', PStr ''tool'')] (Next [(''data'', PStr ''sunny'')] Stop)))
       [(''prompt'', PStr ''weather?'')]) = [PStr ''It is '', PStr ''sunny'']"
  using stream_yields_data [of
      "\<lambda>p. Next [(''data'', PStr ''It is '')]
              (Next [(''event'', PStr ''tool'')] (Next [(''data'', PStr ''sunny'')] Stop))"
      "[(''prompt'', PStr ''weather?'')]"]
  by (simp add: data_values_def dict_get_def)

text \<open>
  C9: a payload without the key \<open>prompt\<close> is not rejected: \<open>payload.get("prompt")\<close> is
  \<open>None\<close>, the agent is called once, with \<open>None\<close>, and the generator raises only an
  exception that the agent's stream raised and \<open>except Exception\<close> does not catch.
\<close>

theorem missing_prompt_forwarded:
  assumes "map_of payload ''prompt'' = None"
  shows "agent_calls (strands_agent_bedrock_streaming stream_async payload) = [PNone] \<and>
         printed (strands_agent_bedrock_streaming stream_async payload) ! 0 = User_input PNone \<and>
         yielded (strands_agent_bedrock_streaming stream_async payload) =
           data_values (items (stream_async PNone)) @
             (case ending (stream_async PNone) of
                None \<Rightarrow> []
              | Some e \<Rightarrow>
                  if is_Exception (exc_class e)
                  then [PDict [(''error'', PStr (exc_str e)), (''type'', PStr ''stream_error'')]]
                  else []) \<and>
         finish (strands_agent_bedrock_streaming stream_async payload) =
           (case ending (stream_async PNone) of
              None \<Rightarrow> Returned ()
            | Some e \<Rightarrow> if is_Exception (exc_class e) then Returned () else Raised e)"
  using assms
  by (simp add: strands_agent_bedrock_streaming_def stream_loop_eq dict_get_def Let_def
           split: option.splits)

theorem missing_prompt_forwarded_witness:
  "map_of [(''question'', PStr ''hi'')] ''prompt'' = None \<and>
   agent_calls (strands_agent_bedrock_streaming
       (\<lambda>p. if p = PNone then Raise (PyExc (OtherException ''ValueError'') ''no prompt'')
             else Next [(''data'', PStr ''ok'')] Stop)
       [(''question'', PStr ''hi'')]) = [PNone] \<and>
   yielded (strands_agent_bedrock_streaming
       (\<lambda>p. if p = PNone then Raise (PyExc (OtherException ''ValueError'') ''no prompt'')
             else Next [(''data'', PStr ''ok'')] Stop)
       [(''question'', PStr ''hi'')]) =
     [PDict [(''error'', PStr ''no prompt''), (''type'', PStr ''stream_error'')]] \<and>
   finish (strands_agent_bedrock_streaming
       (\<lambda>p. if p = PNone then Raise (PyExc (OtherException ''ValueError'') ''no prompt'')
             else Next [(''data'', PStr ''ok'')] Stop)
       [(''question'', PStr ''hi'')]) = Returned ()"
  using missing_prompt_forwarded [of "[(''question'', PStr ''hi'')]"
      "\<lambda>p. if p = PNone then Raise (PyExc (OtherException ''ValueError'') ''no prompt'')
            else Next [(''data'', PStr ''ok'')] Stop"]
  by (simp add: data_values_def)

subsection \<open>The status polling loop\<close>

lemma polling_loop_reaches:
  "rs (n + d) \<in> set end_status \<Longrightarrow> (\<forall>j<d. rs (n + j) \<notin> set end_status) \<Longrightarrow>
   st \<notin> set end_status \<Longrightarrow>
   polling_loop rs n st out =
     Some \<lparr>final_status = rs (n + d), printed_statuses = out @ map rs [n..<Suc (n + d)],
           status_calls = Suc (n + d)\<rparr>"
proof (induction d arbitrary: n st out)
  case 0
  then show ?case
    by (subst polling_loop.simps, subst polling_loop.simps) simp
next
  case (Suc d)
  have here: "rs n \<notin> set end_status"
    using Suc.prems(2) by (metis add.right_neutral zero_less_Suc)
  have later: "\<forall>j<d. rs (Suc n + j) \<notin> set end_status"
    using Suc.prems(2) by (metis add_Suc_shift Suc_mono)
  have "polling_loop rs n st out = polling_loop rs (Suc n) (rs n) (out @ [rs n])"
    using Suc.prems(3) by (subst polling_loop.simps) simp
  moreover have "polling_loop rs (Suc n) (rs n) (out @ [rs n]) = Some \<lparr>final_status = rs (Suc n + d),
        printed_statuses = (out @ [rs n]) @ map rs [Suc n..<Suc (Suc n + d)],
        status_calls = Suc (Suc n + d)\<rparr>"
    using Suc.prems(1) later here by (intro Suc.IH) simp_all
  moreover have "[n..<Suc (n + Suc d)] = n # [Suc n..<Suc (Suc n + d)]"
    by (simp add: upt_conv_Cons del: upt_Suc)
  ultimately show ?case
    by (simp del: upt_Suc)
qed

lemma polling_loop_Some_end:
  assumes "polling_loop rs n st out = Some r"
  shows "st \<in> set end_status \<or> (\<exists>k\<ge>n. rs k \<in> set end_status)"
proof (rule polling_loop.raw_induct
    [where P = "\<lambda>rs n st out r. st \<in> set end_status \<or> (\<exists>k\<ge>n. rs k \<in> set end_status)",
     OF _ assms])
  fix f :: "(nat \<Rightarrow> string) \<Rightarrow> nat \<Rightarrow> string \<Rightarrow> string list \<Rightarrow> poll_result option"
  fix rs n st out r
  assume IH: "\<And>rs n st out r. f rs n st out = Some r \<Longrightarrow>
      st \<in> set end_status \<or> (\<exists>k\<ge>n. rs k \<in> set end_status)"
  assume step: "(if st \<notin> set end_status
      then f rs (Suc n) (rs n) (out @ [rs n])
      else Some \<lparr>final_status = st, printed_statuses = out, status_calls = n\<rparr>) = Some r"
  show "st \<in> set end_status \<or> (\<exists>k\<ge>n. rs k \<in> set end_status)"
  proof (cases "st \<in> set end_status")
    case True
    then show ?thesis by simp
  next
    case False
    with step have "f rs (Suc n) (rs n) (out @ [rs n]) = Some r" by simp
    from IH [OF this] show ?thesis
      by (metis Suc_leD le_refl)
  qed
qed

text \<open>
  C8, as the code has it: the loop goes on as long as the status is outside
  \<open>end_status\<close>. When some call answers a member of \<open>end_status\<close>, the cell ends with
  \<open>status\<close> the first such answer. The answers printed are those got inside the loop,
  in order: every answer after the first call's, up to and including the first member of
  \<open>end_status\<close>; nothing else is done with them. The answer of the first call, made
  before the loop, is not printed. When no call ever answers a member, the cell never
  ends.
\<close>

theorem status_polling_cell_first_end_status:
  "((\<exists>k. rs k \<in> set end_status) \<longrightarrow>
      (\<exists>k. rs k \<in> set end_status \<and> (\<forall>j<k. rs j \<notin> set end_status) \<and>
           status_polling_cell rs =
             Some \<lparr>final_status = rs k, printed_statuses = map rs [1..<Suc k],
                   status_calls = Suc k\<rparr>)) \<and>
   ((\<forall>k. rs k \<notin> set end_status) \<longrightarrow> status_polling_cell rs = None)"
proof (intro conjI impI)
  assume ex: "\<exists>k. rs k \<in> set end_status"
  define k where "k = (LEAST k. rs k \<in> set end_status)"
  have k_in: "rs k \<in> set end_status"
    unfolding k_def using ex by (rule LeastI_ex)
  have k_least: "\<forall>j<k. rs j \<notin> set end_status"
    unfolding k_def using not_less_Least by blast
  have "status_polling_cell rs =
      Some \<lparr>final_status = rs k, printed_statuses = map rs [1..<Suc k], status_calls = Suc k\<rparr>"
  proof (cases k)
    case 0
    with k_in show ?thesis
      by (simp add: status_polling_cell_def polling_loop.simps)
  next
    case (Suc d)
    have "rs 0 \<notin> set end_status" using k_least Suc by simp
    moreover have "rs (1 + d) \<in> set end_status" using k_in Suc by simp
    moreover have "\<forall>j<d. rs (1 + j) \<notin> set end_status" using k_least Suc by simp
    ultimately show ?thesis
      using polling_loop_reaches [of rs 1 d "rs 0" "[]"] Suc
      by (simp add: status_polling_cell_def)
  qed
  with k_in k_least show "\<exists>k. rs k \<in> set end_status \<and> (\<forall>j<k. rs j \<notin> set end_status) \<and>
           status_polling_cell rs =
             Some \<lparr>final_status = rs k, printed_statuses = map rs [1..<Suc k],
                   status_calls = Suc k\<rparr>"
    by blast
next
  assume never: "\<forall>k. rs k \<notin> set end_status"
  show "status_polling_cell rs = None"
  proof (rule ccontr)
    assume "status_polling_cell rs \<noteq> None"
    then obtain r where "polling_loop rs 1 (rs 0) [] = Some r"
      by (auto simp: status_polling_cell_def)
    from polling_loop_Some_end [OF this] never show False by blast
  qed
qed

theorem status_polling_cell_first_end_status_witness:
  "status_polling_cell (\<lambda>n. if n < 2 then ''CREATING'' else ''READY'') =
     Some \<lparr>final_status = ''READY'', printed_statuses = [''CREATING'', ''READY''],
           status_calls = 3\<rparr>"
proof -
  let ?rs = "\<lambda>n::nat. if n < 2 then ''CREATING'' else ''READY''"
  have "\<exists>k. ?rs k \<in> set end_status"
    by (rule exI [of _ 2]) (simp add: end_status_def)
  with status_polling_cell_first_end_status [of ?rs] obtain k where
    k: "?rs k \<in> set end_status" "\<forall>j<k. ?rs j \<notin> set end_status"
       "status_polling_cell ?rs =
          Some \<lparr>final_status = ?rs k, printed_statuses = map ?rs [1..<Suc k],
                status_calls = Suc k\<rparr>"
    by blast
  have "\<not> k < 2" using k(1) by (auto simp: end_status_def)
  moreover have "\<not> 2 < k"
  proof
    assume "2 < k"
    with k(2) have "?rs 2 \<notin> set end_status" by blast
    then show False by (simp add: end_status_def)
  qed
  ultimately have "k = 2" by simp
  with k(3) show ?thesis by (simp add: upt_conv_Cons)
qed

text \<open>
  The claim as stated, that every intermediate status is printed, fails: with the answers
  \<open>CREATING\<close>, \<open>READY\<close> the intermediate status \<open>CREATING\<close> is the answer of the
  call before the loop and is never printed; the one line printed is the final status.
\<close>

theorem status_polling_cell_first_end_status_counterexample:
  "status_polling_cell (\<lambda>n. if n = 0 then ''CREATING'' else ''READY'') =
     Some \<lparr>final_status = ''READY'', printed_statuses = [''READY''], status_calls = 2\<rparr>"
proof -
  have "polling_loop (\<lambda>n. if n = 0 then ''CREATING'' else ''READY'') 2 ''READY'' [''READY''] =
      Some \<lparr>final_status = ''READY'', printed_statuses = [''READY''], status_calls = 2\<rparr>"
    by (subst polling_loop.simps) (simp add: end_status_def)
  then show ?thesis
    by (simp add: status_polling_cell_def end_status_def,
        subst polling_loop.simps) (simp add: end_status_def numeral_2_eq_2)
qed

subsection \<open>The browser task\<close>

lemma task_except_no_close:
  "count_list (fst (task_except env log e)) Session_close = count_list log Session_close"
  by (simp add: task_except_def split: option.splits)

lemma task_except_no_run:
  "count_list (fst (task_except env log e)) Agent_run = count_list log Agent_run"
  by (simp add: task_except_def split: option.splits)

lemma run_browser_task_no_close:
  "count_list (fst (run_browser_task env task)) Session_close = 0"
  by (simp add: run_browser_task_def task_except_no_close split: option.splits)

lemma run_browser_task_one_run:
  "count_list (fst (run_browser_task env task)) Agent_run \<le> 1"
  by (simp add: run_browser_task_def task_except_no_run split: option.splits)

lemma run_browser_task_from_agent:
  assumes "console_print env (executing_text task) = None" and "agent_raises env = Some e"
  shows "\<exists>log. count_list log (Console_error (exc_str e)) = 0 \<and>
           run_browser_task env task = task_except env log e"
proof (cases "agent_init env")
  case None
  with assms have "agent_run env = Some e"
    by (simp add: agent_raises_def)
  with None assms(1)
  have "run_browser_task env task =
      task_except env [Console_executing task, Agent_init, Agent_run] e"
    by (simp add: run_browser_task_def)
  then show ?thesis
    by (intro exI [of _ "[Console_executing task, Agent_init, Agent_run]"]) simp
next
  case (Some e')
  with assms have "e' = e"
    by (simp add: agent_raises_def)
  with Some assms(1)
  have "run_browser_task env task = task_except env [Console_executing task, Agent_init] e"
    by (simp add: run_browser_task_def)
  then show ?thesis
    by (intro exI [of _ "[Console_executing task, Agent_init]"]) simp
qed

text \<open>
  C6, as the code has it. \<open>agent.run()\<close> is called at most once, whatever happens. When
  constructing or running the Agent raises an exception that is an instance of
  \<open>Exception\<close>, it is caught in \<open>run_browser_task\<close> and \<open>console.print\<close> is called
  once with the message that holds its \<open>str(e)\<close>; when that print returns, the function
  returns \<open>None\<close>; when that print raises, its exception leaves the function. An
  exception that derives from \<open>BaseException\<close> only is not caught: no message is printed
  for it and it leaves the function. When nothing raises, the function returns \<open>None\<close>.
\<close>

theorem run_browser_task_catches:
  "count_list (fst (run_browser_task env task)) Agent_run \<le> 1 \<and>
   (console_print env (executing_text task) = None \<longrightarrow>
      (agent_raises env = None \<longrightarrow> snd (run_browser_task env task) = Returned PNone) \<and>
      (agent_raises env = Some e \<and> is_Exception (exc_class e) \<longrightarrow>
         count_list (fst (run_browser_task env task)) (Console_error (exc_str e)) = 1 \<and>
         (console_print env (error_text (exc_str e)) = None \<longrightarrow>
            snd (run_browser_task env task) = Returned PNone) \<and>
         (\<forall>e'. console_print env (error_text (exc_str e)) = Some e' \<longrightarrow>
            snd (run_browser_task env task) = Raised e')) \<and>
      (agent_raises env = Some e \<and> \<not> is_Exception (exc_class e) \<longrightarrow>
         count_list (fst (run_browser_task env task)) (Console_error (exc_str e)) = 0 \<and>
         snd (run_browser_task env task) = Raised e))"
proof (intro conjI impI)
  show "count_list (fst (run_browser_task env task)) Agent_run \<le> 1"
    by (rule run_browser_task_one_run)
next
  assume "console_print env (executing_text task) = None" and "agent_raises env = None"
  then show "snd (run_browser_task env task) = Returned PNone"
    by (simp add: run_browser_task_def agent_raises_def split: option.splits)
next
  assume start: "console_print env (executing_text task) = None"
    and exc: "agent_raises env = Some e \<and> is_Exception (exc_class e)"
  from run_browser_task_from_agent [OF start] exc obtain log where
    log: "count_list log (Console_error (exc_str e)) = 0"
      "run_browser_task env task = task_except env log e"
    by blast
  show "count_list (fst (run_browser_task env task)) (Console_error (exc_str e)) = 1"
    using log exc by (simp add: task_except_def split: option.splits)
  show "snd (run_browser_task env task) = Returned PNone"
    if "console_print env (error_text (exc_str e)) = None"
    using log exc that by (simp add: task_except_def)
  show "\<forall>e'. console_print env (error_text (exc_str e)) = Some e' \<longrightarrow>
      snd (run_browser_task env task) = Raised e'"
    using log exc by (simp add: task_except_def)
next
  assume start: "console_print env (executing_text task) = None"
    and exc: "agent_raises env = Some e \<and> \<not> is_Exception (exc_class e)"
  from run_browser_task_from_agent [OF start] exc obtain log where
    log: "count_list log (Console_error (exc_str e)) = 0"
      "run_browser_task env task = task_except env log e"
    by blast
  show "count_list (fst (run_browser_task env task)) (Console_error (exc_str e)) = 0"
    using log exc by (simp add: task_except_def)
  show "snd (run_browser_task env task) = Raised e"
    using log exc by (simp add: task_except_def)
qed

theorem run_browser_task_catches_witness:
  "run_browser_task
       (calm_browser\<lparr>agent_run := Some (PyExc (OtherException ''TimeoutError'') ''timed out'')\<rparr>)
       ''find a coffee maker'' =
     ([Console_executing ''find a coffee maker'', Agent_init, Agent_run,
       Console_error ''timed out''], Returned PNone)"
proof -
  let ?env = "calm_browser\<lparr>agent_run :=
      Some (PyExc (OtherException ''TimeoutError'') ''timed out'')\<rparr>"
  have "agent_raises ?env = Some (PyExc (OtherException ''TimeoutError'') ''timed out'')"
    by (simp add: agent_raises_def calm_browser_def)
  moreover have "console_print ?env (executing_text ''find a coffee maker'') = None"
    "console_print ?env (error_text ''timed out'') = None"
    by (simp_all add: calm_browser_def)
  ultimately have "snd (run_browser_task ?env ''find a coffee maker'') = Returned PNone"
    using run_browser_task_catches [of ?env "''find a coffee maker''"
      "PyExc (OtherException ''TimeoutError'') ''timed out''"]
    by simp
  moreover have "fst (run_browser_task ?env ''find a coffee maker'') =
      [Console_executing ''find a coffee maker'', Agent_init, Agent_run,
       Console_error ''timed out'']"
    by (simp add: run_browser_task_def task_except_def calm_browser_def)
  ultimately show ?thesis
    by (simp add: prod_eq_iff)
qed

text \<open>
  The claim as stated, for every exception, fails: a \<open>KeyboardInterrupt\<close> during
  \<open>agent.run()\<close> is not an instance of \<open>Exception\<close>; nothing is printed for it and it
  leaves the function.
\<close>

theorem run_browser_task_catches_counterexample:
  "run_browser_task (calm_browser\<lparr>agent_run := Some (PyExc KeyboardInterrupt [])\<rparr>)
       ''find a coffee maker'' =
     ([Console_executing ''find a coffee maker'', Agent_init, Agent_run],
      Raised (PyExc KeyboardInterrupt []))"
  by (simp add: run_browser_task_def task_except_def calm_browser_def)

text \<open>
  It fails for an instance of \<open>Exception\<close> too, when the handler's own print raises: the
  text of the exception below holds the closing tag \<open>[/div]\<close>, the print of the message
  raises on it, and that exception leaves the function.
\<close>

lemma run_browser_task_markup_error:
  "run_browser_task
       (calm_browser\<lparr>agent_run :=
            Some (PyExc (OtherException ''ElementNotFound'') ''element [/div] not found''),
          console_print := rich_print\<rparr>)
       ''find a coffee maker'' =
     ([Console_executing ''find a coffee maker'', Agent_init, Agent_run,
       Console_error ''element [/div] not found''], Raised markup_error)"
proof -
  have "rich_print (executing_text ''find a coffee maker'') = None"
    by (simp add: rich_print_def contains_def executing_text_def robot_face_def)
  moreover have "rich_print (error_text ''element [/div] not found'') = Some markup_error"
    by (simp add: rich_print_def contains_def error_text_def cross_mark_def)
  ultimately show ?thesis
    by (simp add: run_browser_task_def task_except_def calm_browser_def)
qed

subsection \<open>The browser session cell\<close>

lemma session_try_no_close: "count_list (actions (session_try env)) Session_close = 0"
  by (simp add: session_try_def run_browser_task_no_close split: option.splits)

lemma session_try_bound:
  "truthy (browser_session (session_try env)) =
     (profile_init env = None \<and> session_init env = None)"
  by (simp add: session_try_def split: option.splits)

text \<open>
  C10, as the code has it: when the session object was constructed, the \<open>finally\<close> block
  calls \<open>close()\<close> once, whatever the rest of the \<open>try\<close> block did; when it was not,
  \<open>close()\<close> is not called. An exception of \<open>close()\<close> that is an instance of
  \<open>Exception\<close> is suppressed, so that the cell ends as its \<open>try\<close> block did. An
  exception of \<open>close()\<close> that derives from \<open>BaseException\<close> only is not suppressed:
  when \<open>close()\<close> is called, the cell ends by raising it, whatever the \<open>try\<close> block
  did.
\<close>

theorem browser_session_cell_close:
  "(profile_init env = None \<and> session_init env = None \<longrightarrow>
      count_list (fst (browser_session_cell env)) Session_close = 1) \<and>
   (profile_init env \<noteq> None \<or> session_init env \<noteq> None \<longrightarrow>
      count_list (fst (browser_session_cell env)) Session_close = 0) \<and>
   (\<forall>e. session_close env = Some e \<and> is_Exception (exc_class e) \<longrightarrow>
      snd (browser_session_cell env) = raised (session_try env)) \<and>
   (\<forall>e. profile_init env = None \<and> session_init env = None \<and>
        session_close env = Some e \<and> \<not> is_Exception (exc_class e) \<longrightarrow>
      snd (browser_session_cell env) = Some e)"
proof (intro conjI impI allI)
  assume "profile_init env = None \<and> session_init env = None"
  then have "truthy (browser_session (session_try env))"
    by (simp add: session_try_bound)
  then show "count_list (fst (browser_session_cell env)) Session_close = 1"
    by (simp add: browser_session_cell_def session_finally_def session_try_no_close
             split: option.splits)
next
  assume "profile_init env \<noteq> None \<or> session_init env \<noteq> None"
  then have "\<not> truthy (browser_session (session_try env))"
    by (auto simp: session_try_bound)
  then show "count_list (fst (browser_session_cell env)) Session_close = 0"
    by (simp add: browser_session_cell_def session_finally_def session_try_no_close)
next
  fix e
  assume "session_close env = Some e \<and> is_Exception (exc_class e)"
  then show "snd (browser_session_cell env) = raised (session_try env)"
    by (simp add: browser_session_cell_def session_finally_def)
next
  fix e
  assume a: "profile_init env = None \<and> session_init env = None \<and>
      session_close env = Some e \<and> \<not> is_Exception (exc_class e)"
  then have "truthy (browser_session (session_try env))"
    by (simp add: session_try_bound)
  with a show "snd (browser_session_cell env) = Some e"
    by (simp add: browser_session_cell_def session_finally_def)
qed

theorem browser_session_cell_close_witness:
  "browser_session_cell
       (calm_browser\<lparr>session_start := Some (PyExc (OtherException ''ConnectionError'') ''no CDP''),
          session_close := Some (PyExc (OtherException ''RuntimeError'') ''not started'')\<rparr>) =
     ([Profile_init, Session_init, Console_initializing, Session_start,
       Console_closing, Session_close, Console_closed],
      Some (PyExc (OtherException ''ConnectionError'') ''no CDP''))"
proof -
  let ?env = "calm_browser\<lparr>session_start :=
        Some (PyExc (OtherException ''ConnectionError'') ''no CDP''),
      session_close := Some (PyExc (OtherException ''RuntimeError'') ''not started'')\<rparr>"
  have "snd (browser_session_cell ?env) = raised (session_try ?env)"
    using browser_session_cell_close [of ?env] by (simp add: calm_browser_def)
  then have "snd (browser_session_cell ?env) =
      Some (PyExc (OtherException ''ConnectionError'') ''no CDP'')"
    by (simp add: session_try_def calm_browser_def)
  moreover have "fst (browser_session_cell ?env) =
      [Profile_init, Session_init, Console_initializing, Session_start,
       Console_closing, Session_close, Console_closed]"
    by (simp add: browser_session_cell_def session_finally_def session_try_def
          calm_browser_def)
  ultimately show ?thesis
    by (simp add: prod_eq_iff)
qed

text \<open>
  The claim as stated, for every exception of \<open>close()\<close>, fails:
  \<open>asyncio.CancelledError\<close> is not an instance of \<open>Exception\<close>, so
  \<open>suppress(Exception)\<close> lets it through and the cell, whose \<open>try\<close> block ended well,
  propagates it.
\<close>

theorem browser_session_cell_close_counterexample:
  "browser_session_cell (calm_browser\<lparr>session_close := Some (PyExc CancelledError [])\<rparr>) =
     ([Profile_init, Session_init, Console_initializing, Session_start, Chat_init,
       Console_ready, Console_executing session_task, Agent_init, Agent_run,
       Console_completed, Console_closing, Session_close],
      Some (PyExc CancelledError []))"
  by (simp add: browser_session_cell_def session_finally_def session_try_def
        run_browser_task_def calm_browser_def)

subsection \<open>The code interpreter notebook: \<open>call_tool\<close>\<close>

text \<open>
  C4, as the code has it: when \<open>invoke_code_interpreter\<close> returns a response whose stream
  hands out an event, \<open>call_tool\<close> reads that event and no other. When the event has the
  key \<open>result\<close> and \<open>json.dumps\<close> serialises its value, \<open>call_tool\<close> returns the
  serialisation; when the event has no key \<open>result\<close>, \<open>call_tool\<close> raises a
  \<open>KeyError\<close>; when \<open>json.dumps\<close> raises, \<open>call_tool\<close> raises that exception. When
  the stream ends with no event, \<open>call_tool\<close> returns \<open>None\<close>; when reading the stream
  raises before any event, \<open>call_tool\<close> raises that exception.
\<close>

theorem call_tool_first_result:
  assumes "interpreter_id k = Some iid" and "session_id k = Some sid"
    and "invoke_code_interpreter env (length (remote_calls k)) tool_name arguments = Inr stream"
  shows "(stream = Next event rest \<longrightarrow>
            unread (call_tool env k tool_name arguments) = Some rest \<and>
            (\<forall>r s. map_of event ''result'' = Some r \<and> json_dumps env r = Inr s \<longrightarrow>
               returned (call_tool env k tool_name arguments) = Returned (Some s)) \<and>
            (\<forall>r e. map_of event ''result'' = Some r \<and> json_dumps env r = Inl e \<longrightarrow>
               returned (call_tool env k tool_name arguments) = Raised e) \<and>
            (map_of event ''result'' = None \<longrightarrow>
               returned (call_tool env k tool_name arguments) = Raised (key_error ''result''))) \<and>
         (stream = Stop \<longrightarrow>
            returned (call_tool env k tool_name arguments) = Returned None) \<and>
         (\<forall>e. stream = Raise e \<longrightarrow>
            returned (call_tool env k tool_name arguments) = Raised e)"
  using assms
  by (auto simp: call_tool_def first_event_def split: option.splits sum.splits)

theorem call_tool_first_result_witness:
  "returned (call_tool sample_env
       (fresh_kernel\<lparr>interpreter_id := Some ''ci-1'', session_id := Some ''s-1''\<rparr>)
       ''executeCommand'' (PDict [(''command'', PStr ''ls'')])) = Returned (Some ''{ok}'') \<and>
   unread (call_tool sample_env
       (fresh_kernel\<lparr>interpreter_id := Some ''ci-1'', session_id := Some ''s-1''\<rparr>)
       ''executeCommand'' (PDict [(''command'', PStr ''ls'')])) =
     Some (Next [(''result'', PDict [(''isError'', PBool True)])] Stop)"
  using call_tool_first_result [of
      "fresh_kernel\<lparr>interpreter_id := Some ''ci-1'', session_id := Some ''s-1''\<rparr>"
      "''ci-1''" "''s-1''" sample_env "''executeCommand''" "PDict [(''command'', PStr ''ls'')]"
      "Next [(''result'', PDict [(''isError'', PBool False)])]
         (Next [(''result'', PDict [(''isError'', PBool True)])] Stop)"
      "[(''result'', PDict [(''isError'', PBool False)])]"
      "Next [(''result'', PDict [(''isError'', PBool True)])] Stop"]
  by (simp add: sample_env_def fresh_kernel_def)

text \<open>
  The claim as stated, for every stream that hands out an event, fails: the first event
  of the stream below has no key \<open>result\<close>, and \<open>call_tool\<close> raises a \<open>KeyError\<close>
  instead of returning.
\<close>

theorem call_tool_first_result_counterexample:
  "returned (call_tool
       (sample_env\<lparr>invoke_code_interpreter := (\<lambda>n tool_name arguments.
          Inr (Next [(''event'', PStr ''started'')]
                 (Next [(''result'', PDict [(''isError'', PBool False)])] Stop)))\<rparr>)
       (fresh_kernel\<lparr>interpreter_id := Some ''ci-1'', session_id := Some ''s-1''\<rparr>)
       ''executeCommand'' (PDict [(''command'', PStr ''ls'')])) =
     Raised (key_error ''result'')"
  by (simp add: call_tool_def first_event_def sample_env_def fresh_kernel_def)

subsection \<open>The code interpreter notebook: the order of the remote calls\<close>

lemma precedes_snoc:
  "precedes P Q (t @ [x]) = (precedes P Q t \<and> (Q x \<longrightarrow> list_ex P t))"
  by (induction t) auto

lemma none_after_snoc:
  "none_after P Q (t @ [x]) = (none_after P Q t \<and> (list_ex P t \<longrightarrow> \<not> Q x))"
  by (induction t) auto

lemma pipeline_order_snoc:
  "pipeline_order (t @ [c]) =
     (pipeline_order t \<and>
      (c = StartCodeInterpreterSession \<longrightarrow> CreateCodeInterpreter \<in> set t) \<and>
      (is_invoke c \<longrightarrow> StartCodeInterpreterSession \<in> set t) \<and>
      (c = DeleteCodeInterpreter \<longrightarrow> StopCodeInterpreterSession \<in> set t) \<and>
      (StopCodeInterpreterSession \<in> set t \<longrightarrow>
         \<not> is_invoke c \<and> c \<noteq> StartCodeInterpreterSession \<and> c \<noteq> StopCodeInterpreterSession) \<and>
      DeleteCodeInterpreter \<notin> set t)"
  by (auto simp: pipeline_order_def precedes_snoc none_after_snoc list_ex_iff)

lemma before_cleanup_print [simp]: "before_cleanup (print_line s k) = before_cleanup k"
  by (simp add: before_cleanup_def print_line_def)

lemma before_cleanup_local_file_content [simp]:
  "before_cleanup (k\<lparr>local_file_content := v\<rparr>) = before_cleanup k"
  by (simp add: before_cleanup_def)

lemma before_cleanup_files_to_create [simp]:
  "before_cleanup (k\<lparr>files_to_create := v\<rparr>) = before_cleanup k"
  by (simp add: before_cleanup_def)

lemma before_cleanup_invoke:
  "before_cleanup k \<Longrightarrow> session_id k \<noteq> None \<Longrightarrow>
   before_cleanup (remote (InvokeCodeInterpreter tool_name) k)"
  by (simp add: before_cleanup_def remote_def pipeline_order_snoc)

lemma call_tool_kernel:
  "kernel_after (call_tool env k tool_name arguments) =
     (if interpreter_id k \<noteq> None \<and> session_id k \<noteq> None
      then remote (InvokeCodeInterpreter tool_name) k else k)"
  by (simp add: call_tool_def split: option.splits sum.splits)

lemma before_cleanup_call_tool:
  "before_cleanup k \<Longrightarrow> before_cleanup (kernel_after (call_tool env k tool_name arguments))"
  by (simp add: call_tool_kernel before_cleanup_invoke)

lemma before_cleanup_print_stdout:
  "before_cleanup k \<Longrightarrow> before_cleanup (fst (print_stdout env r k))"
  by (simp add: print_stdout_def split: option.splits sum.splits)

lemma create_cell_keeps: "before_cleanup k \<Longrightarrow> before_cleanup (fst (create_cell env k))"
  by (auto simp: create_cell_def before_cleanup_def remote_def print_line_def
        pipeline_order_snoc split: sum.splits)

lemma start_cell_keeps: "before_cleanup k \<Longrightarrow> before_cleanup (fst (start_cell env k))"
  by (auto simp: start_cell_def before_cleanup_def remote_def print_line_def
        pipeline_order_snoc split: sum.splits option.splits)

lemma hello_cell_keeps: "before_cleanup k \<Longrightarrow> before_cleanup (fst (hello_cell env k))"
  by (simp add: hello_cell_def Let_def before_cleanup_call_tool before_cleanup_print_stdout
        split: outcome.splits)

lemma pip_cell_keeps: "before_cleanup k \<Longrightarrow> before_cleanup (fst (pip_cell env k))"
  by (simp add: pip_cell_def Let_def before_cleanup_call_tool before_cleanup_print_stdout
        split: outcome.splits)

lemma read_local_file_keeps:
  "before_cleanup k \<Longrightarrow> before_cleanup (fst (read_local_file env k))"
  by (simp add: read_local_file_def read_except_def split: sum.splits)

lemma write_file_cell_keeps:
  assumes "before_cleanup k"
  shows "before_cleanup (fst (write_file_cell env k))"
proof -
  obtain k1 r where rd: "read_local_file env (print_line ''Writing file to sandbox'' k) = (k1, r)"
    by (cases "read_local_file env (print_line ''Writing file to sandbox'' k)")
  have "before_cleanup k1"
    using read_local_file_keeps [of "print_line ''Writing file to sandbox'' k" env] assms rd
    by simp
  then show ?thesis
    by (simp add: write_file_cell_def rd Let_def before_cleanup_call_tool
          split: option.splits outcome.splits)
qed

lemma make_bucket_cell_keeps:
  "before_cleanup k \<Longrightarrow> before_cleanup (fst (make_bucket_cell env k))"
  by (simp add: make_bucket_cell_def Let_def before_cleanup_call_tool split: outcome.splits)

lemma upload_cell_keeps: "before_cleanup k \<Longrightarrow> before_cleanup (fst (upload_cell env k))"
  by (simp add: upload_cell_def Let_def before_cleanup_call_tool
        split: option.splits sum.splits outcome.splits)

lemma list_cell_keeps: "before_cleanup k \<Longrightarrow> before_cleanup (fst (list_cell env k))"
  by (simp add: list_cell_def Let_def before_cleanup_call_tool split: outcome.splits)

lemma before_cleanup_order: "before_cleanup k \<Longrightarrow> pipeline_order (remote_calls k)"
  by (simp add: before_cleanup_def)

lemma pipeline_order_stop:
  assumes "pipeline_order t" and "StopCodeInterpreterSession \<notin> set t"
    and "DeleteCodeInterpreter \<notin> set t"
  shows "pipeline_order (t @ [StopCodeInterpreterSession])"
  using assms by (simp add: pipeline_order_snoc)

lemma pipeline_order_stop_delete:
  assumes "pipeline_order t" and "StopCodeInterpreterSession \<notin> set t"
    and "DeleteCodeInterpreter \<notin> set t"
  shows "pipeline_order (t @ [StopCodeInterpreterSession, DeleteCodeInterpreter])"
proof -
  have "pipeline_order ((t @ [StopCodeInterpreterSession]) @ [DeleteCodeInterpreter])"
    using pipeline_order_stop [OF assms] assms(3)
    by (subst pipeline_order_snoc) simp
  then show ?thesis by simp
qed

lemma cleanup_cell_order:
  assumes "before_cleanup k"
  shows "pipeline_order (remote_calls (fst (cleanup_cell env k)))"
proof -
  have t: "pipeline_order (remote_calls k)" "StopCodeInterpreterSession \<notin> set (remote_calls k)"
    "DeleteCodeInterpreter \<notin> set (remote_calls k)"
    using assms by (simp_all add: before_cleanup_def)
  show ?thesis
    using t pipeline_order_stop [OF t] pipeline_order_stop_delete [OF t]
    by (simp add: cleanup_cell_def Let_def remote_def print_line_def split: option.splits)
qed

lemma run_cells_order:
  assumes "\<forall>c \<in> set cs. \<forall>k. before_cleanup k \<longrightarrow> before_cleanup (fst (c env k))"
    and "before_cleanup k"
  shows "pipeline_order (remote_calls (run_cells halt env (cs @ [cleanup_cell]) k))"
  using assms
proof (induction cs arbitrary: k)
  case Nil
  then show ?case
    using cleanup_cell_order [of k env]
    by (cases "cleanup_cell env k") (auto split: option.splits)
next
  case (Cons c cs)
  obtain k1 r where step: "c env k = (k1, r)"
    by (cases "c env k")
  have k1: "before_cleanup k1"
    using Cons.prems step by fastforce
  have rest: "pipeline_order (remote_calls (run_cells halt env (cs @ [cleanup_cell]) k1))"
    using Cons.IH [OF _ k1] Cons.prems(1) by simp
  show ?case
    using step rest before_cleanup_order [OF k1]
    by (cases r; cases halt) simp_all
qed

lemma fresh_kernel_before_cleanup: "before_cleanup fresh_kernel"
  by (simp add: before_cleanup_def fresh_kernel_def pipeline_order_def)

text \<open>
  C5: whatever the service answers, and whether or not the run halts at a cell that
  raised, the remote calls of the notebook come in pipeline order: no session is started
  before the interpreter was created, no tool is invoked before the session was started,
  the interpreter is deleted only after the session was stopped, nothing is invoked,
  started or stopped after the session was stopped, and nothing is called after the
  interpreter was deleted.
\<close>

theorem notebook_pipeline_order:
  "pipeline_order (remote_calls (run_cells halt env notebook fresh_kernel))"
proof -
  have "\<forall>c \<in> set [create_cell, start_cell, hello_cell, pip_cell, write_file_cell,
            make_bucket_cell, upload_cell, list_cell].
          \<forall>k. before_cleanup k \<longrightarrow> before_cleanup (fst (c env k))"
    by (simp add: create_cell_keeps start_cell_keeps hello_cell_keeps pip_cell_keeps
          write_file_cell_keeps make_bucket_cell_keeps upload_cell_keeps list_cell_keeps)
  from run_cells_order [OF this fresh_kernel_before_cleanup, of halt]
  show ?thesis
    by (simp add: notebook_def)
qed

lemma sample_run:
  "remote_calls (run_cells True sample_env notebook fresh_kernel) =
     [CreateCodeInterpreter, StartCodeInterpreterSession,
      InvokeCodeInterpreter ''executeCommand'', InvokeCodeInterpreter ''executeCommand'',
      InvokeCodeInterpreter ''writeFiles'', InvokeCodeInterpreter ''executeCommand'',
      InvokeCodeInterpreter ''executeCommand'', InvokeCodeInterpreter ''executeCommand'',
      StopCodeInterpreterSession, DeleteCodeInterpreter]"
  by (simp add: notebook_def sample_env_def fresh_kernel_def create_cell_def start_cell_def
        hello_cell_def pip_cell_def write_file_cell_def make_bucket_cell_def upload_cell_def
        list_cell_def cleanup_cell_def call_tool_def first_event_def print_stdout_def
        read_local_file_def first_path_def remote_def print_line_def Let_def)

theorem notebook_pipeline_order_witness:
  "pipeline_order
     [CreateCodeInterpreter, StartCodeInterpreterSession,
      InvokeCodeInterpreter ''executeCommand'', InvokeCodeInterpreter ''executeCommand'',
      InvokeCodeInterpreter ''writeFiles'', InvokeCodeInterpreter ''executeCommand'',
      InvokeCodeInterpreter ''executeCommand'', InvokeCodeInterpreter ''executeCommand'',
      StopCodeInterpreterSession, DeleteCodeInterpreter]"
  using notebook_pipeline_order [of True sample_env] by (simp add: sample_run)

subsection \<open>The code interpreter notebook: the write cell\<close>

lemma write_file_cell_unbound:
  assumes "open_local_file env = Inl e" and "is_Exception (exc_class e)"
    and "local_file_content k = None"
  shows "snd (write_file_cell env k) = Some (name_error ''local_file_content'') \<and>
         remote_calls (fst (write_file_cell env k)) = remote_calls k"
  using assms
  by (simp add: write_file_cell_def read_local_file_def read_except_def print_line_def)

text \<open>
  C7 fails on the code. With the local file missing and \<open>local_file_content\<close> not bound
  by an earlier run, the handler prints its message, and the next statement of the cell
  reads \<open>local_file_content\<close>: the cell ends with a \<open>NameError\<close>, before any call to the
  sandbox.
\<close>

theorem write_file_cell_missing_file:
  "write_file_cell
       (sample_env\<lparr>open_local_file :=
          Inl (PyExc FileNotFoundError ''[Errno 2] No such file or directory'')\<rparr>)
       (fresh_kernel\<lparr>interpreter_id := Some ''ci-1'', session_id := Some ''s-1''\<rparr>) =
     (fresh_kernel\<lparr>interpreter_id := Some ''ci-1'', session_id := Some ''s-1'',
        stdout := [''Writing file to sandbox'',
                   ''Error: The file '' @ [squote] @ ''samples/stats.py'' @ [squote] @
                     '' was not found.'']\<rparr>,
      Some (name_error ''local_file_content''))"
  by (simp add: write_file_cell_def read_local_file_def read_except_def print_line_def
        sample_env_def fresh_kernel_def local_file_def)

end
